theory Spec2Isabelle
  imports Complex_Main
begin


section \<open>Python values shared by both components\<close>

text \<open>
  Exceptions of the Python source are values.  A function that mutates an object before it
  raises returns the mutated state together with the exception, as the caller of the Python
  code would observe it.
\<close>

datatype error =
    IndexError | KeyError | TypeError | AttributeError | ValueError | RuntimeError
  | FileExistsError | FileNotFoundError | IsADirectoryError | NotADirectoryError
  | JSONDecodeError | Unsupported

text \<open>
  A Python \<open>dict\<close> keeps its keys in insertion order and holds each key once: an association
  list in which \<open>dict_set\<close> overwrites in place and appends a new key at the end.
\<close>

type_synonym ('k, 'v) dict = "('k \<times> 'v) list"

primrec dict_set :: "'k \<Rightarrow> 'v \<Rightarrow> ('k, 'v) dict \<Rightarrow> ('k, 'v) dict" where
  "dict_set k v [] = [(k, v)]"
| "dict_set k v (p # ps) = (if fst p = k then (k, v) # ps else p # dict_set k v ps)"

definition dict_get :: "('k, 'v) dict \<Rightarrow> 'k \<Rightarrow> error + 'v" where
  "dict_get d k = (case map_of d k of None \<Rightarrow> Inl KeyError | Some v \<Rightarrow> Inr v)"

definition dict_contains :: "('k, 'v) dict \<Rightarrow> 'k \<Rightarrow> bool" where
  "dict_contains d k = (map_of d k \<noteq> None)"

text \<open>Indexing a sequence with a non-negative index; out of range raises \<open>IndexError\<close>.\<close>

definition index1 :: "'a list \<Rightarrow> nat \<Rightarrow> error + 'a" where
  "index1 xs i = (if i < length xs then Inr (xs ! i) else Inl IndexError)"

definition index2 :: "'a list list \<Rightarrow> nat \<Rightarrow> nat \<Rightarrow> error + 'a" where
  "index2 t b j = (case index1 t b of Inl e \<Rightarrow> Inl e | Inr row \<Rightarrow> index1 row j)"

text \<open>
  A \<open>for\<close> loop over a sequence whose body mutates a state and may raise: the loop stops at
  the first exception and the state keeps what the body had done until then.
\<close>

primrec for_each :: "'i list \<Rightarrow> ('i \<Rightarrow> 's \<Rightarrow> error option \<times> 's) \<Rightarrow> 's \<Rightarrow> error option \<times> 's" where
  "for_each [] body st = (None, st)"
| "for_each (i # is) body st =
     (case body i st of
        (Some e, st') \<Rightarrow> (Some e, st')
      | (None, st') \<Rightarrow> for_each is body st')"

section \<open>The PCKh evaluator (\<open>dsnt/eval.py\<close>)\<close>

subsection \<open>Average meter\<close>

text \<open>
  Modelled from the spec: \<open>torchnet.meter.AverageValueMeter\<close>, a class of an external
  library that is not part of the sources.  The spec (section 3) gives it a running count
  \<open>n\<close> and a running sum \<open>s\<close>; \<open>add\<close> records one observation, \<open>value()\<close> is \<open>s/n\<close>
  (not-a-number, here \<open>None\<close>, when \<open>n = 0\<close>) and \<open>reset()\<close> zeroes both.
\<close>

record avg_meter =
  meter_n :: nat
  meter_sum :: real

definition AverageValueMeter_init :: avg_meter where
  "AverageValueMeter_init = \<lparr>meter_n = 0, meter_sum = 0\<rparr>"

definition meter_add :: "real \<Rightarrow> avg_meter \<Rightarrow> avg_meter" where
  "meter_add v m = m\<lparr>meter_n := meter_n m + 1, meter_sum := meter_sum m + v\<rparr>"


definition meter_reset :: "avg_meter \<Rightarrow> avg_meter" where
  "meter_reset m = m\<lparr>meter_n := 0, meter_sum := 0\<rparr>"

subsection \<open>Tensors and floating-point results\<close>

text \<open>
  A tensor is the nested list of its entries, indexed with bounds checks.  Coordinates and
  head lengths are finite numbers, idealised as reals (rounding is not modelled).  The
  quotient of line 26 is a tensor division: a zero divisor gives an infinity or not-a-number
  instead of raising, and both compare false against the threshold.
\<close>

datatype fval = Fin real | PInf | NInf | NaN

definition fdiv :: "real \<Rightarrow> real \<Rightarrow> fval" where
  "fdiv d h =
     (if h \<noteq> 0 then Fin (d / h)
      else if d = 0 then NaN
      else if 0 < d then PInf else NInf)"

fun fle :: "fval \<Rightarrow> real \<Rightarrow> bool" where
  "fle (Fin x) c = (x \<le> c)"
| "fle PInf c = False"
| "fle NInf c = True"
| "fle NaN c = False"

text \<open>
  \<open>torch.dist(a, b)\<close>: the Euclidean norm of \<open>a - b\<close>.  Operands of different lengths are
  broadcast when one of them has a single element, and rejected otherwise.
\<close>

definition torch_dist :: "real list \<Rightarrow> real list \<Rightarrow> error + real" where
  "torch_dist a b =
     (if length a = length b then Inr (sqrt (\<Sum>(x, y)\<leftarrow>zip a b. (x - y)\<^sup>2))
      else if length a = 1 then Inr (sqrt (\<Sum>y\<leftarrow>b. (hd a - y)\<^sup>2))
      else if length b = 1 then Inr (sqrt (\<Sum>x\<leftarrow>a. (x - hd b)\<^sup>2))
      else Inl RuntimeError)"

record batch =
  pred :: "real list list list"
  target :: "real list list list"
  joint_mask :: "int list list"
  head_lengths :: "real list"

subsection \<open>The evaluator\<close>

definition JOINT_NAMES :: "string list" where
  "JOINT_NAMES =
     [''rankle'', ''rknee'', ''rhip'', ''lhip'', ''lknee'', ''lankle'', ''pelvis'', ''thorax'',
      ''upperneck'', ''headtop'', ''rwrist'', ''relbow'', ''rshoulder'', ''lshoulder'',
      ''lelbow'', ''lwrist'']"

text \<open>The evaluator's only field is \<open>self.meters\<close>, a dict from meter name to meter.\<close>

type_synonym evaluator = "(string, avg_meter) dict"

text \<open>\<open>__init__\<close>: the aggregate meter first, then one meter per joint name, in table order.\<close>

definition PCKhEvaluator_init :: evaluator where
  "PCKhEvaluator_init =
     foldl (\<lambda>meters joint_name. dict_set joint_name AverageValueMeter_init meters)
       [(''all'', AverageValueMeter_init)] JOINT_NAMES"

text \<open>\<open>self.meters[name].add(v)\<close>: a missing name raises \<open>KeyError\<close> and changes nothing.\<close>

definition meters_add :: "string \<Rightarrow> real \<Rightarrow> evaluator \<Rightarrow> error option \<times> evaluator" where
  "meters_add name v ev =
     (case dict_get ev name of
        Inl e \<Rightarrow> (Some e, ev)
      | Inr m \<Rightarrow> (None, dict_set name (meter_add v m) ev))"

text \<open>Line 26: \<open>torch.dist(target[b, j], pred[b, j]) / head_lengths[b]\<close>.\<close>

definition norm_dist :: "batch \<Rightarrow> nat \<Rightarrow> nat \<Rightarrow> error + fval" where
  "norm_dist bt b j =
     (case index2 (target bt) b j of Inl e \<Rightarrow> Inl e | Inr t \<Rightarrow>
       (case index2 (pred bt) b j of Inl e \<Rightarrow> Inl e | Inr p \<Rightarrow>
         (case torch_dist t p of Inl e \<Rightarrow> Inl e | Inr d \<Rightarrow>
           (case index1 (head_lengths bt) b of Inl e \<Rightarrow> Inl e | Inr h \<Rightarrow>
              Inr (fdiv d h)))))"

text \<open>Line 27: \<open>dist <= 0.5 and 1 or 0\<close>.\<close>

definition thresholded :: "fval \<Rightarrow> real" where
  "thresholded nd = (if fle nd (1 / 2) then 1 else 0)"

text \<open>Lines 28 and 29: the aggregate meter first, then the meter of joint \<open>j\<close>.\<close>

definition record_entry :: "nat \<Rightarrow> real \<Rightarrow> evaluator \<Rightarrow> error option \<times> evaluator" where
  "record_entry j v ev =
     (case meters_add ''all'' v ev of
        (Some e, ev') \<Rightarrow> (Some e, ev')
      | (None, ev') \<Rightarrow>
          (case index1 JOINT_NAMES j of
             Inl e \<Rightarrow> (Some e, ev')
           | Inr joint_name \<Rightarrow> meters_add joint_name v ev'))"

text \<open>The body of the inner loop, lines 25 to 29.\<close>

definition add_entry :: "batch \<Rightarrow> nat \<Rightarrow> nat \<Rightarrow> evaluator \<Rightarrow> error option \<times> evaluator" where
  "add_entry bt b j ev =
     (case index2 (joint_mask bt) b j of
        Inl e \<Rightarrow> (Some e, ev)
      | Inr mk \<Rightarrow>
          if mk = 1 then
            (case norm_dist bt b j of
               Inl e \<Rightarrow> (Some e, ev)
             | Inr nd \<Rightarrow> record_entry j (thresholded nd) ev)
          else (None, ev))"

text \<open>
  \<open>pred.size(0)\<close> and \<open>pred.size(1)\<close>.  The second is read only when the batch has a row.
\<close>

definition batch_size :: "batch \<Rightarrow> nat" where
  "batch_size bt = length (pred bt)"

definition n_joints :: "batch \<Rightarrow> nat" where
  "n_joints bt = (case pred bt of [] \<Rightarrow> 0 | row # _ \<Rightarrow> length row)"

definition PCKhEvaluator_add :: "batch \<Rightarrow> evaluator \<Rightarrow> error option \<times> evaluator" where
  "PCKhEvaluator_add bt ev =
     for_each [0..<batch_size bt]
       (\<lambda>b. for_each [0..<n_joints bt] (\<lambda>j. add_entry bt b j)) ev"

definition PCKhEvaluator_reset :: "evaluator \<Rightarrow> evaluator" where
  "PCKhEvaluator_reset ev = map (\<lambda>(meter_name, meter). (meter_name, meter_reset meter)) ev"

text \<open>A driver's calls on one evaluator, in order; it stops at the first exception.\<close>

datatype eval_call = Add batch | Reset

fun run_call :: "eval_call \<Rightarrow> evaluator \<Rightarrow> error option \<times> evaluator" where
  "run_call (Add bt) ev = PCKhEvaluator_add bt ev"
| "run_call Reset ev = (None, PCKhEvaluator_reset ev)"

definition run_calls :: "eval_call list \<Rightarrow> evaluator \<Rightarrow> error option \<times> evaluator" where
  "run_calls cs ev = for_each cs run_call ev"

text \<open>The masked entries of a batch, in the order the loops visit them.\<close>

definition masked_entries :: "batch \<Rightarrow> (nat \<times> nat) list" where
  "masked_entries bt =
     concat (map (\<lambda>b. map (\<lambda>j. (b, j))
                        (filter (\<lambda>j. index2 (joint_mask bt) b j = Inr 1) [0..<n_joints bt]))
                 [0..<batch_size bt])"




subsection \<open>Example batches\<close>


definition unmasked_batch :: batch where
  "unmasked_batch =
     \<lparr>pred = [[[1, 2], [3, 4]]], target = [[[0, 0], [0, 0]]], joint_mask = [[0, 0]],
      head_lengths = [10]\<rparr>"





section \<open>Properties of the evaluator\<close>

subsection \<open>Dicts and loops\<close>


lemma keys_dict_set:
  "map fst (dict_set k v d) = (if k \<in> set (map fst d) then map fst d else map fst d @ [k])"
  by (induction d) auto

lemma for_each_append:
  "for_each (xs @ ys) body st =
     (case for_each xs body st of
        (Some e, st') \<Rightarrow> (Some e, st')
      | (None, st') \<Rightarrow> for_each ys body st')"
  by (induction xs arbitrary: st) (auto split: prod.splits option.splits)

lemma for_each_map:
  "for_each (map g xs) body st = for_each xs (\<lambda>x. body (g x)) st"
  by (induction xs arbitrary: st) (auto split: prod.splits option.splits)

lemma for_each_nested:
  "for_each bs (\<lambda>b. for_each (js b) (\<lambda>j. f b j)) st =
   for_each (concat (map (\<lambda>b. map (\<lambda>j. (b, j)) (js b)) bs)) (\<lambda>(b, j). f b j) st"
  by (induction bs arbitrary: st)
     (auto simp: for_each_append for_each_map split: prod.splits option.splits)

lemma for_each_filter:
  "(\<And>x st. x \<in> set xs \<Longrightarrow> \<not> P x \<Longrightarrow> body x st = (None, st)) \<Longrightarrow>
   for_each (filter P xs) body st = for_each xs body st"
  by (induction xs arbitrary: st) (auto split: prod.splits option.splits)

lemma for_each_cong:
  "(\<And>x st. x \<in> set xs \<Longrightarrow> f x st = g x st) \<Longrightarrow> for_each xs f st = for_each xs g st"
  by (induction xs arbitrary: st) (auto split: prod.splits option.splits)


subsection \<open>Unmasked entries\<close>

text \<open>
  Claim C3.  Given a joint mask that covers the shape of the predictions, \<open>add\<close> does
  exactly what running the loop body over the masked entries alone does, in the same order:
  an entry whose mask value is not 1 changes no meter, neither its sum nor its sample count.
  In particular a batch with no masked entry returns without an exception and leaves the
  whole meter dict as it was.
\<close>

theorem unmasked_entries_skipped:
  assumes "\<forall>b<batch_size bt. \<forall>j<n_joints bt. \<exists>mk. index2 (joint_mask bt) b j = Inr mk"
  shows "PCKhEvaluator_add bt ev = for_each (masked_entries bt) (\<lambda>(b, j). add_entry bt b j) ev
       \<and> (masked_entries bt = [] \<longrightarrow> PCKhEvaluator_add bt ev = (None, ev))"
proof -
  have inner: "for_each [0..<n_joints bt] (\<lambda>j. add_entry bt b j) st =
               for_each (filter (\<lambda>j. index2 (joint_mask bt) b j = Inr 1) [0..<n_joints bt])
                 (\<lambda>j. add_entry bt b j) st"
    if "b < batch_size bt" for b st
  proof (rule for_each_filter [symmetric])
    fix j st0
    assume "j \<in> set [0..<n_joints bt]" and nm: "index2 (joint_mask bt) b j \<noteq> Inr 1"
    then have "j < n_joints bt" by simp
    with assms that obtain mk where "index2 (joint_mask bt) b j = Inr mk" by blast
    with nm show "add_entry bt b j st0 = (None, st0)" by (simp add: add_entry_def)
  qed
  have "PCKhEvaluator_add bt ev =
        for_each [0..<batch_size bt]
          (\<lambda>b. for_each (filter (\<lambda>j. index2 (joint_mask bt) b j = Inr 1) [0..<n_joints bt])
                 (\<lambda>j. add_entry bt b j)) ev"
    unfolding PCKhEvaluator_add_def by (rule for_each_cong) (simp add: inner)
  also have "\<dots> = for_each (masked_entries bt) (\<lambda>(b, j). add_entry bt b j) ev"
    unfolding masked_entries_def by (rule for_each_nested)
  finally show ?thesis by auto
qed

theorem unmasked_entries_skipped_witness:
  "PCKhEvaluator_add unmasked_batch PCKhEvaluator_init = (None, PCKhEvaluator_init)"
proof -
  have shape: "\<forall>b<batch_size unmasked_batch. \<forall>j<n_joints unmasked_batch.
                 \<exists>mk. index2 (joint_mask unmasked_batch) b j = Inr mk"
    by (simp add: unmasked_batch_def batch_size_def n_joints_def index2_def index1_def)
  have none: "masked_entries unmasked_batch = []"
    by (simp add: masked_entries_def unmasked_batch_def batch_size_def n_joints_def
          index2_def index1_def upt_rec)
  show ?thesis
    using unmasked_entries_skipped [OF shape, of PCKhEvaluator_init] none by simp
qed

subsection \<open>The meters of an evaluator\<close>

lemma JOINT_NAMES_facts:
  "length JOINT_NAMES = 16" "distinct JOINT_NAMES" "''all'' \<notin> set JOINT_NAMES"
  by (simp_all add: JOINT_NAMES_def)

lemma init_keys: "map fst PCKhEvaluator_init = ''all'' # JOINT_NAMES"
  by (simp add: PCKhEvaluator_init_def JOINT_NAMES_def)

lemma init_meters: "map snd PCKhEvaluator_init = replicate 17 AverageValueMeter_init"
  by (simp add: PCKhEvaluator_init_def JOINT_NAMES_def eval_nat_numeral)

lemma keys_meters_add: "map fst (snd (meters_add name v ev)) = map fst ev"
  by (auto simp: meters_add_def dict_get_def keys_dict_set map_of_eq_None_iff
           split: option.splits)

lemma keys_record_entry: "map fst (snd (record_entry j v ev)) = map fst ev"
  using keys_meters_add [of "''all''" v ev]
  by (auto simp: record_entry_def keys_meters_add split: prod.splits option.splits sum.splits)
     (metis keys_meters_add snd_conv)+


lemma keys_add_entry: "map fst (snd (add_entry bt b j ev)) = map fst ev"
  by (simp add: add_entry_def keys_record_entry split: sum.splits)

lemma keys_for_each:
  "(\<And>i st. map fst (snd (body i st)) = map fst st) \<Longrightarrow>
   map fst (snd (for_each xs body st)) = map fst st"
proof (induction xs arbitrary: st)
  case Nil
  then show ?case by simp
next
  case (Cons x xs)
  show ?case
  proof (cases "body x st")
    case (Pair r st1)
    have k: "map fst st1 = map fst st" using Cons.prems [of x st] Pair by simp
    show ?thesis
    proof (cases r)
      case None
      with Pair k Cons.IH [OF Cons.prems, of st1] show ?thesis by simp
    next
      case (Some e)
      with Pair k show ?thesis by simp
    qed
  qed
qed

lemma keys_add: "map fst (snd (PCKhEvaluator_add bt ev)) = map fst ev"
  unfolding PCKhEvaluator_add_def
  by (rule keys_for_each, rule keys_for_each, rule keys_add_entry)

lemma keys_reset: "map fst (PCKhEvaluator_reset ev) = map fst ev"
  by (induction ev) (auto simp: PCKhEvaluator_reset_def)

lemma keys_run_call: "map fst (snd (run_call c ev)) = map fst ev"
  by (cases c) (simp_all add: keys_add keys_reset)

lemma keys_run_calls: "map fst (snd (run_calls cs ev)) = map fst ev"
  unfolding run_calls_def by (rule keys_for_each, rule keys_run_call)

text \<open>
  Claim C9.  A fresh evaluator holds 17 meters, all in their initial state: the aggregate
  \<open>all\<close> and one for each of the 16 joint names, which are pairwise different, so that
  tensor index \<open>j\<close> stands for exactly one name.  No sequence of calls changes that key
  set, and \<open>reset\<close> puts every meter of the dict back into the initial state.
\<close>

theorem evaluator_has_17_meters:
  "map fst PCKhEvaluator_init = ''all'' # JOINT_NAMES
   \<and> map snd PCKhEvaluator_init = replicate 17 AverageValueMeter_init
   \<and> length PCKhEvaluator_init = 17
   \<and> distinct (map fst PCKhEvaluator_init)
   \<and> length JOINT_NAMES = 16 \<and> distinct JOINT_NAMES
   \<and> map fst (snd (run_calls cs PCKhEvaluator_init)) = ''all'' # JOINT_NAMES
   \<and> map fst (PCKhEvaluator_reset ev) = map fst ev
   \<and> map snd (PCKhEvaluator_reset ev) = replicate (length ev) AverageValueMeter_init"
proof -
  have l: "length PCKhEvaluator_init = 17"
    using arg_cong [OF init_keys, of length] by (simp add: JOINT_NAMES_facts(1))
  have d: "distinct (map fst PCKhEvaluator_init)"
    by (simp add: init_keys JOINT_NAMES_facts)
  have r: "map snd (PCKhEvaluator_reset ev) = replicate (length ev) AverageValueMeter_init"
    by (induction ev) (auto simp: PCKhEvaluator_reset_def meter_reset_def AverageValueMeter_init_def)
  show ?thesis
    by (simp add: init_keys init_meters l d JOINT_NAMES_facts keys_run_calls keys_reset r)
qed

subsection \<open>The threshold\<close>




subsection \<open>The aggregate meter and the per-joint meters\<close>


















end
